theory Spec2Isabelle
  imports Complex_Main
begin

section \<open>JavaScript values\<close>

text \<open>
  The devices store \<^verbatim>\<open>CharacteristicValue\<close>s and read fields of JSON objects, so the
  model works on untyped JavaScript values. Numbers are the finite ones (a real) and NaN;
  objects and arrays never reach the code modelled here.
\<close>

datatype jsval = Undefined | JNull | JBool bool | JNaN | JNum real | JStr string

text \<open>\<^verbatim>\<open>a === b\<close>: same type and same value, and NaN is equal to nothing.\<close>

definition strict_eq :: "jsval \<Rightarrow> jsval \<Rightarrow> bool" where
  "strict_eq a b = (a = b \<and> a \<noteq> JNaN)"

text \<open>The truthiness of a value, as \<^verbatim>\<open>if (v)\<close>, \<^verbatim>\<open>!v\<close>, \<^verbatim>\<open>v ? a : b\<close> and \<^verbatim>\<open>Boolean(v)\<close> read it.\<close>

fun truthy :: "jsval \<Rightarrow> bool" where
  "truthy Undefined = False"
| "truthy JNull = False"
| "truthy (JBool b) = b"
| "truthy JNaN = False"
| "truthy (JNum r) = (r \<noteq> 0)"
| "truthy (JStr s) = (s \<noteq> [])"

text \<open>
  \<^verbatim>\<open>Number(v)\<close>. The numeric value of a string is the language's StringToNumber, which is
  taken as the parameter \<open>sn\<close> (\<open>None\<close> where the string is no numeric literal).
\<close>

fun Number_js :: "(string \<Rightarrow> real option) \<Rightarrow> jsval \<Rightarrow> jsval" where
  "Number_js sn Undefined = JNaN"
| "Number_js sn JNull = JNum 0"
| "Number_js sn (JBool b) = JNum (if b then 1 else 0)"
| "Number_js sn JNaN = JNaN"
| "Number_js sn (JNum r) = JNum r"
| "Number_js sn (JStr s) = (case sn s of None \<Rightarrow> JNaN | Some r \<Rightarrow> JNum r)"

text \<open>\<^verbatim>\<open>x < k\<close> for a number \<open>x\<close> (only results of \<^verbatim>\<open>Number\<close> are compared): false on NaN.\<close>

fun num_lt :: "jsval \<Rightarrow> real \<Rightarrow> bool" where
  "num_lt (JNum r) k = (r < k)"
| "num_lt v k = False"

definition Number_isNaN :: "jsval \<Rightarrow> bool" where
  "Number_isNaN v = (v = JNaN)"

text \<open>An expression statement such as \<^verbatim>\<open>x === 100;\<close> is evaluated and its value dropped.\<close>

definition expression_statement :: "bool \<Rightarrow> 'a \<Rightarrow> 'a" where
  "expression_statement e s = s"

text \<open>An object read by field name; a field that is absent reads as \<^verbatim>\<open>undefined\<close>.\<close>

type_synonym jsobj = "string \<Rightarrow> jsval"

definition empty_object :: jsobj where
  "empty_object = (\<lambda>k. Undefined)"

definition no_numeric_strings :: "string \<Rightarrow> real option" where
  "no_numeric_strings = (\<lambda>s. None)"

subsection \<open>Constants of the accessory protocol\<close>

text \<open>The values of \<^verbatim>\<open>this.hap.Characteristic.*\<close> that the devices store.\<close>

definition ACTIVE :: jsval where "ACTIVE = JNum 1"
definition INACTIVE :: jsval where "INACTIVE = JNum 0"
definition SWING_ENABLED :: jsval where "SWING_ENABLED = JNum 1"
definition SWING_DISABLED :: jsval where "SWING_DISABLED = JNum 0"
definition CHARGING :: jsval where "CHARGING = JNum 1"
definition NOT_CHARGING :: jsval where "NOT_CHARGING = JNum 0"
definition BATTERY_LEVEL_LOW :: jsval where "BATTERY_LEVEL_LOW = JNum 1"
definition BATTERY_LEVEL_NORMAL :: jsval where "BATTERY_LEVEL_NORMAL = JNum 0"
definition CONTACT_DETECTED :: jsval where "CONTACT_DETECTED = JNum 0"
definition CONTACT_NOT_DETECTED :: jsval where "CONTACT_NOT_DETECTED = JNum 1"

lemmas hap_defs =
  ACTIVE_def INACTIVE_def SWING_ENABLED_def SWING_DISABLED_def CHARGING_def NOT_CHARGING_def
  BATTERY_LEVEL_LOW_def BATTERY_LEVEL_NORMAL_def CONTACT_DETECTED_def CONTACT_NOT_DETECTED_def

section \<open>What a device does to the outside\<close>

text \<open>
  Calls that leave the device object are recorded, in order, in the device's trace:
  \<^item> \<open>GetStatus\<close>: the GET of \<^verbatim>\<open>/status\<close> through \<^verbatim>\<open>platform.retryRequest\<close>;
  \<^item> \<open>PostCommand command parameter commandType\<close>: the POST to \<^verbatim>\<open>/commands\<close>;
  \<^item> \<open>BLEScan\<close>, \<open>BLEDiscover\<close>, \<open>BLECommand\<close>: a scan, a discovery and an acknowledged
    \<^verbatim>\<open>turnOn\<close>/\<^verbatim>\<open>turnOff\<close> over the local radio;
  \<^item> \<open>StatusCode v\<close>: a call \<^verbatim>\<open>this.statusCode(v)\<close>. The routine belongs to the base class
    \<^verbatim>\<open>deviceBase\<close>, which is not among the sources read here: the device routines below
    record the call and its argument at the place where it is made, and what the routine
    then does is modelled apart, from the spec;
  \<^item> \<open>UpdateCharacteristic name v\<close>: \<^verbatim>\<open>Service.updateCharacteristic(name, v)\<close>;
  \<^item> \<open>ErrorCharacteristic name\<close>: the same call with the caught error as its value, which is
    what every \<^verbatim>\<open>apiError\<close> does;
  \<^item> \<open>FirmwareRevision v\<close>: the firmware revision pushed to the AccessoryInformation service.

  Log lines are not recorded.
\<close>

datatype effect =
    GetStatus
  | PostCommand string string string
  | BLEScan
  | BLEDiscover
  | BLECommand string
  | StatusCode jsval
  | UpdateCharacteristic string jsval
  | ErrorCharacteristic string
  | FirmwareRevision jsval

text \<open>The parsed JSON reply of the cloud: its own \<^verbatim>\<open>statusCode\<close> and its \<^verbatim>\<open>body\<close>.\<close>

record deviceStatus =
  ds_statusCode :: jsval
  ds_body :: jsobj

text \<open>
  The firmware block that ends every \<^verbatim>\<open>openAPIparseStatus\<close>: when \<^verbatim>\<open>body.version\<close> is
  truthy the revision is pushed to the AccessoryInformation service. The trace keeps the
  raw version; the decoders strip a leading \<^verbatim>\<open>V\<close> and a \<^verbatim>\<open>-...\<close> suffix from its string
  form.
\<close>

definition firmware_effects :: "jsobj \<Rightarrow> effect list" where
  "firmware_effects body = (if truthy (body ''version'') then [FirmwareRevision (body ''version'')] else [])"

section \<open>Configuration and replies\<close>

text \<open>
  What the devices read of their configuration: \<^verbatim>\<open>device.enableCloudService\<close>,
  \<^verbatim>\<open>this.OpenAPI\<close>, \<^verbatim>\<open>this.BLE\<close>, whether \<^verbatim>\<open>platform.config.credentials?.token\<close> is
  set, \<^verbatim>\<open>device.connectionType\<close> and \<^verbatim>\<open>device.offline\<close>.
\<close>

record device_config =
  enableCloudService :: bool
  OpenAPI :: bool
  BLE :: bool
  token :: bool
  connectionType :: string
  offline :: bool

text \<open>
  The outcome of one HTTP exchange, including the \<^verbatim>\<open>body.json()\<close> that follows it: either
  something in it throws, or it yields the transport's \<^verbatim>\<open>statusCode\<close> and the parsed reply.
\<close>

datatype http_outcome = Throws | Reply jsval deviceStatus

text \<open>The test that every cloud call applies to a reply before treating it as a success.\<close>

definition dual_status_ok :: "jsval \<Rightarrow> jsval \<Rightarrow> bool" where
  "dual_status_ok statusCode body_statusCode =
     ((strict_eq statusCode (JNum 200) \<or> strict_eq statusCode (JNum 100)) \<and>
      (strict_eq body_statusCode (JNum 200) \<or> strict_eq body_statusCode (JNum 100)))"

text \<open>The outcome of \<^verbatim>\<open>await this.platform.connectBLE()\<close>.\<close>

datatype ble_connection = ConnectThrows | ConnectUndefined | Connected

text \<open>A function that either returns or throws; both leave a state behind.\<close>

datatype 's completion = Returned 's | Threw 's

fun state_of :: "'s completion \<Rightarrow> 's" where
  "state_of (Returned s) = s"
| "state_of (Threw s) = s"


subsection \<open>Operators of the reactive library\<close>

text \<open>
  \<^verbatim>\<open>skipWhile(p)\<close> keeps one flag, \<open>taking\<close>, which starts false. On a value from its
  source it computes \<^verbatim>\<open>taking || (taking = !p())\<close> and passes the value on when that is
  true: once a value has passed, the predicate is never asked again. The function returns
  the new flag, which is also whether the value passes.
\<close>

definition skipWhile :: "bool \<Rightarrow> bool \<Rightarrow> bool" where
  "skipWhile taking p = (taking \<or> \<not> p)"

text \<open>
  Mirroring a list of fields as \<^verbatim>\<open>updateHomeKitCharacteristics\<close> does: a field that is
  \<^verbatim>\<open>undefined\<close> is only logged, any other is copied to \<^verbatim>\<open>accessory.context\<close> and pushed
  to its service.
\<close>

fun mirror_context :: "(string \<times> jsval) list \<Rightarrow> jsobj \<Rightarrow> jsobj" where
  "mirror_context [] ctx = ctx"
| "mirror_context ((name, v) # fs) ctx =
     mirror_context fs (if strict_eq v Undefined then ctx else ctx(name := v))"

fun mirror_effects :: "(string \<times> jsval) list \<Rightarrow> effect list" where
  "mirror_effects [] = []"
| "mirror_effects ((name, v) # fs) =
     (if strict_eq v Undefined then [] else [UpdateCharacteristic name v]) @ mirror_effects fs"

text \<open>
  Every handler below is run to its end in one step, with the replies it awaits given as
  arguments: the events of one device are its setters, its timers firing and its promise
  chains settling, one after the other on the single thread of the runtime.
\<close>

section \<open>Fan\<close>

text \<open>
  Besides the characteristic values and \<^verbatim>\<open>accessory.context\<close>, the state holds what the
  constructor's subscriptions keep: the flag \<^verbatim>\<open>plugUpdateInProgress\<close>, whether the timer
  of \<^verbatim>\<open>debounceTime\<close> is running, the \<open>taking\<close> flag of the periodic interval's
  \<^verbatim>\<open>skipWhile\<close>, the periods (in ms) of the live one-shot intervals started by
  \<^verbatim>\<open>pushChanges\<close>, and the number of local-radio promise chains not yet settled.
\<close>

record fan =
  fan_Active :: jsval
  fan_SwingMode :: jsval
  fan_RotationSpeed :: jsval
  fan_BatteryLevel :: jsval
  fan_StatusLowBattery :: jsval
  fan_ChargingState :: jsval
  fan_context :: jsobj
  fan_trace :: "effect list"
  fan_plugUpdateInProgress :: bool
  fan_debounce_running :: bool
  fan_refresh_taking :: bool
  fan_confirm :: "nat list"
  fan_ble_inflight :: nat

definition Fan_BLEparseStatus :: "jsobj \<Rightarrow> fan \<Rightarrow> fan" where
  "Fan_BLEparseStatus serviceData s =
     (if strict_eq (serviceData ''state'') (JStr ''on'')
      then s\<lparr>fan_Active := JBool True\<rparr>
      else s\<lparr>fan_Active := JBool False\<rparr>)"

definition Fan_openAPIparseStatus :: "(string \<Rightarrow> real option) \<Rightarrow> deviceStatus \<Rightarrow> fan \<Rightarrow> fan" where
  "Fan_openAPIparseStatus sn ds s0 =
     (let body = ds_body ds;
          s = s0\<lparr>fan_Active := (if strict_eq (body ''power'') (JStr ''on'') then ACTIVE else INACTIVE)\<rparr>;
          s = s\<lparr>fan_SwingMode :=
                 (if strict_eq (body ''oscillation'') (JStr ''on'') then SWING_ENABLED else SWING_DISABLED)\<rparr>;
          s = s\<lparr>fan_RotationSpeed := body ''fanSpeed''\<rparr>;
          s = s\<lparr>fan_ChargingState :=
                 (if strict_eq (body ''chargingStatus'') (JStr ''charging'') then CHARGING else NOT_CHARGING)\<rparr>;
          s = s\<lparr>fan_BatteryLevel := Number_js sn (body ''battery'')\<rparr>;
          s = (if num_lt (fan_BatteryLevel s) 10
               then s\<lparr>fan_StatusLowBattery := BATTERY_LEVEL_LOW\<rparr>
               else s\<lparr>fan_StatusLowBattery := BATTERY_LEVEL_NORMAL\<rparr>);
          s = (if Number_isNaN (fan_BatteryLevel s) then s\<lparr>fan_BatteryLevel := JNum 100\<rparr> else s)
      in s\<lparr>fan_trace := fan_trace s @ firmware_effects body\<rparr>)"

definition Fan_updateHomeKitCharacteristics :: "fan \<Rightarrow> fan" where
  "Fan_updateHomeKitCharacteristics s =
     (let fields = [(''Active'', fan_Active s), (''RotationSpeed'', fan_RotationSpeed s),
                    (''SwingMode'', fan_SwingMode s), (''BatteryLevel'', fan_BatteryLevel s),
                    (''ChargingState'', fan_ChargingState s),
                    (''StatusLowBattery'', fan_StatusLowBattery s)]
      in s\<lparr>fan_context := mirror_context fields (fan_context s),
            fan_trace := fan_trace s @ mirror_effects fields\<rparr>)"

definition Fan_offlineOff :: "device_config \<Rightarrow> fan \<Rightarrow> fan" where
  "Fan_offlineOff cfg s =
     (if offline cfg
      then s\<lparr>fan_trace := fan_trace s @
               [UpdateCharacteristic ''Active'' INACTIVE, UpdateCharacteristic ''RotationSpeed'' (JNum 0),
                UpdateCharacteristic ''SwingMode'' SWING_DISABLED]\<rparr>
      else s)"

definition Fan_apiError :: "fan \<Rightarrow> fan" where
  "Fan_apiError s =
     s\<lparr>fan_trace := fan_trace s @
          [ErrorCharacteristic ''Active'', ErrorCharacteristic ''RotationSpeed'',
           ErrorCharacteristic ''SwingMode'']\<rparr>"

definition Fan_openAPIRefreshStatus :: "(string \<Rightarrow> real option) \<Rightarrow> http_outcome \<Rightarrow> fan \<Rightarrow> fan" where
  "Fan_openAPIRefreshStatus sn reply s0 =
     (let s = s0\<lparr>fan_trace := fan_trace s0 @ [GetStatus]\<rparr>
      in case reply of
           Throws \<Rightarrow> Fan_apiError s
         | Reply statusCode deviceStatus \<Rightarrow>
             if dual_status_ok statusCode (ds_statusCode deviceStatus)
             then Fan_updateHomeKitCharacteristics (Fan_openAPIparseStatus sn deviceStatus s)
             else s\<lparr>fan_trace := fan_trace s @
                      [StatusCode statusCode, StatusCode (ds_statusCode deviceStatus)]\<rparr>)"

text \<open>
  \<^verbatim>\<open>refreshStatus\<close>. Of the local-radio branch only the start of the scan is kept: what
  the scan later does with an advertisement, and its fallback to the cloud when no
  connection exists, are outside the model.
\<close>

definition Fan_refreshStatus ::
  "(string \<Rightarrow> real option) \<Rightarrow> device_config \<Rightarrow> http_outcome \<Rightarrow> fan \<Rightarrow> fan" where
  "Fan_refreshStatus sn cfg reply s =
     (if \<not> enableCloudService cfg \<and> OpenAPI cfg then s
      else if BLE cfg then s\<lparr>fan_trace := fan_trace s @ [BLEScan]\<rparr>
      else if OpenAPI cfg \<and> token cfg then Fan_openAPIRefreshStatus sn reply s
      else Fan_offlineOff cfg s)"

definition Fan_openAPIpushChanges :: "http_outcome \<Rightarrow> fan \<Rightarrow> fan" where
  "Fan_openAPIpushChanges reply s0 =
     (if \<not> strict_eq (fan_Active s0) (fan_context s0 ''Active'')
      then
        (let command = (if truthy (fan_Active s0) then ''turnOn'' else ''turnOff'');
             s = s0\<lparr>fan_trace := fan_trace s0 @ [PostCommand command ''default'' ''command'']\<rparr>
         in case reply of
              Throws \<Rightarrow> Fan_apiError s
            | Reply statusCode deviceStatus \<Rightarrow>
                if dual_status_ok statusCode (ds_statusCode deviceStatus)
                then s
                else s\<lparr>fan_trace := fan_trace s @
                         [StatusCode statusCode, StatusCode (ds_statusCode deviceStatus)]\<rparr>)
      else s0)"

text \<open>
  \<^verbatim>\<open>BLEpushChanges\<close> awaits the connection and starts the chain
  \<^verbatim>\<open>discover(...).then(...).then(...).catch(...)\<close> without awaiting it. A connection that
  throws, or is \<^verbatim>\<open>undefined\<close> (so that \<^verbatim>\<open>switchbot.discover\<close> throws), makes the function
  throw. The chain settles later, in \<open>Fan_BLEsettled\<close>.
\<close>

definition Fan_BLEpushChanges :: "ble_connection \<Rightarrow> fan \<Rightarrow> fan completion" where
  "Fan_BLEpushChanges conn s =
     (if \<not> strict_eq (fan_Active s) (fan_context s ''Active'')
      then (case conn of
              Connected \<Rightarrow>
                Returned (s\<lparr>fan_trace := fan_trace s @ [BLEDiscover],
                            fan_ble_inflight := Suc (fan_ble_inflight s)\<rparr>)
            | ConnectUndefined \<Rightarrow> Threw s
            | ConnectThrows \<Rightarrow> Threw s)
      else Returned s)"

definition Fan_BLEPushConnection :: "device_config \<Rightarrow> http_outcome \<Rightarrow> fan \<Rightarrow> fan" where
  "Fan_BLEPushConnection cfg reply s =
     (if token cfg \<and> connectionType cfg = ''BLE/OpenAPI'' then Fan_openAPIpushChanges reply s else s)"

text \<open>
  The chain of \<^verbatim>\<open>BLEpushChanges\<close> settling. \<open>sent\<close> says that discovery and the command
  (with its retries) succeeded: then the second \<^verbatim>\<open>then\<close> runs. Otherwise the \<^verbatim>\<open>catch\<close>
  runs. The command is chosen from \<^verbatim>\<open>this.Fan.Active\<close> as it is when the chain runs.
\<close>

definition Fan_BLEsettled :: "device_config \<Rightarrow> bool \<Rightarrow> http_outcome \<Rightarrow> fan \<Rightarrow> fan" where
  "Fan_BLEsettled cfg sent reply s0 =
     (case fan_ble_inflight s0 of
        0 \<Rightarrow> s0
      | Suc n \<Rightarrow>
          (let s = s0\<lparr>fan_ble_inflight := n\<rparr>
           in if sent
              then s\<lparr>fan_trace := fan_trace s @
                        [BLECommand (if truthy (fan_Active s) then ''turnOn'' else ''turnOff'')],
                      fan_Active := JBool False\<rparr>
              else Fan_BLEPushConnection cfg reply (Fan_apiError s)))"

text \<open>
  \<^verbatim>\<open>pushChanges\<close>: the dispatch, then
  \<^verbatim>\<open>interval(15000).pipe(skipWhile(...)).pipe(take(1)).subscribe(refreshStatus)\<close>, which adds
  a one-shot interval of 15000 ms. A dispatch that throws leaves before that line.
\<close>

definition Fan_pushChanges ::
  "device_config \<Rightarrow> ble_connection \<Rightarrow> http_outcome \<Rightarrow> fan \<Rightarrow> fan completion" where
  "Fan_pushChanges cfg conn reply s =
     (let r = (if \<not> enableCloudService cfg \<and> OpenAPI cfg then Returned s
               else if BLE cfg then Fan_BLEpushChanges conn s
               else if OpenAPI cfg \<and> token cfg then Returned (Fan_openAPIpushChanges reply s)
               else Returned (Fan_offlineOff cfg s))
      in case r of
           Threw s' \<Rightarrow> Threw s'
         | Returned s' \<Rightarrow> Returned (s'\<lparr>fan_confirm := fan_confirm s' @ [15000]\<rparr>))"

text \<open>
  \<^verbatim>\<open>doPlugUpdate.next()\<close>: the \<^verbatim>\<open>tap\<close> sets the flag and \<^verbatim>\<open>debounceTime\<close> restarts its
  timer, dropping the value it held.
\<close>

definition Fan_doPlugUpdate_next :: "fan \<Rightarrow> fan" where
  "Fan_doPlugUpdate_next s = s\<lparr>fan_plugUpdateInProgress := True, fan_debounce_running := True\<rparr>"

definition Fan_ActiveSet :: "jsval \<Rightarrow> fan \<Rightarrow> fan" where
  "Fan_ActiveSet v s = Fan_doPlugUpdate_next (s\<lparr>fan_Active := v\<rparr>)"

definition Fan_RotationSpeedSet :: "jsval \<Rightarrow> fan \<Rightarrow> fan" where
  "Fan_RotationSpeedSet v s = Fan_doPlugUpdate_next (s\<lparr>fan_RotationSpeed := v\<rparr>)"

definition Fan_SwingModeSet :: "jsval \<Rightarrow> fan \<Rightarrow> fan" where
  "Fan_SwingModeSet v s = Fan_doPlugUpdate_next (s\<lparr>fan_SwingMode := v\<rparr>)"

text \<open>
  The subscriber behind \<^verbatim>\<open>debounceTime\<close>, run when the timer elapses with no newer value:
  \<^verbatim>\<open>pushChanges\<close> inside \<^verbatim>\<open>try\<close>, \<^verbatim>\<open>apiError\<close> when it throws, and the flag cleared.
\<close>

definition Fan_debounce_elapsed ::
  "device_config \<Rightarrow> ble_connection \<Rightarrow> http_outcome \<Rightarrow> fan \<Rightarrow> fan" where
  "Fan_debounce_elapsed cfg conn reply s0 =
     (if fan_debounce_running s0
      then (let s = s0\<lparr>fan_debounce_running := False\<rparr>;
                s = (case Fan_pushChanges cfg conn reply s of
                       Returned s' \<Rightarrow> s'
                     | Threw s' \<Rightarrow> Fan_apiError s')
            in s\<lparr>fan_plugUpdateInProgress := False\<rparr>)
      else s0)"

text \<open>
  A value of the periodic \<^verbatim>\<open>interval(deviceRefreshRate * 1000)\<close> going through
  \<^verbatim>\<open>skipWhile(() => this.plugUpdateInProgress)\<close> to the subscriber.
\<close>

definition Fan_refresh_tick ::
  "(string \<Rightarrow> real option) \<Rightarrow> device_config \<Rightarrow> http_outcome \<Rightarrow> fan \<Rightarrow> fan" where
  "Fan_refresh_tick sn cfg reply s0 =
     (let s = s0\<lparr>fan_refresh_taking := skipWhile (fan_refresh_taking s0) (fan_plugUpdateInProgress s0)\<rparr>
      in if fan_refresh_taking s then Fan_refreshStatus sn cfg reply s else s)"

text \<open>
  A value of the \<open>i\<close>-th live one-shot interval. Its \<^verbatim>\<open>skipWhile\<close> has let nothing pass yet
  (\<^verbatim>\<open>take(1)\<close> ends the subscription at the first value that passes), so the value passes
  exactly when the flag is clear; otherwise the interval stays and ticks again.
\<close>

definition Fan_confirm_tick ::
  "(string \<Rightarrow> real option) \<Rightarrow> device_config \<Rightarrow> nat \<Rightarrow> http_outcome \<Rightarrow> fan \<Rightarrow> fan" where
  "Fan_confirm_tick sn cfg i reply s =
     (if i < length (fan_confirm s) \<and> skipWhile False (fan_plugUpdateInProgress s)
      then Fan_refreshStatus sn cfg reply
             (s\<lparr>fan_confirm := take i (fan_confirm s) @ drop (Suc i) (fan_confirm s)\<rparr>)
      else s)"


text \<open>The events of one fan, and the state after a sequence of them.\<close>

datatype fan_event =
    ActiveSet jsval
  | RotationSpeedSet jsval
  | SwingModeSet jsval
  | DebounceElapsed ble_connection http_outcome
  | RefreshTick http_outcome
  | ConfirmTick nat http_outcome
  | BLESettled bool http_outcome

fun fan_step :: "(string \<Rightarrow> real option) \<Rightarrow> device_config \<Rightarrow> fan \<Rightarrow> fan_event \<Rightarrow> fan" where
  "fan_step sn cfg s (ActiveSet v) = Fan_ActiveSet v s"
| "fan_step sn cfg s (RotationSpeedSet v) = Fan_RotationSpeedSet v s"
| "fan_step sn cfg s (SwingModeSet v) = Fan_SwingModeSet v s"
| "fan_step sn cfg s (DebounceElapsed conn reply) = Fan_debounce_elapsed cfg conn reply s"
| "fan_step sn cfg s (RefreshTick reply) = Fan_refresh_tick sn cfg reply s"
| "fan_step sn cfg s (ConfirmTick i reply) = Fan_confirm_tick sn cfg i reply s"
| "fan_step sn cfg s (BLESettled sent reply) = Fan_BLEsettled cfg sent reply s"

definition fan_run :: "(string \<Rightarrow> real option) \<Rightarrow> device_config \<Rightarrow> fan \<Rightarrow> fan_event list \<Rightarrow> fan" where
  "fan_run sn cfg s es = foldl (fan_step sn cfg) s es"

section \<open>Robot vacuum cleaner\<close>

record rvc =
  rvc_On :: jsval
  rvc_Brightness :: jsval
  rvc_BatteryLevel :: jsval
  rvc_StatusLowBattery :: jsval
  rvc_context :: jsobj
  rvc_trace :: "effect list"
  rvc_robotVacuumCleanerUpdateInProgress :: bool
  rvc_debounce_running :: bool
  rvc_refresh_taking :: bool
  rvc_confirm :: "nat list"


definition RobotVacuumCleaner_openAPIparseStatus ::
  "(string \<Rightarrow> real option) \<Rightarrow> deviceStatus \<Rightarrow> rvc \<Rightarrow> rvc" where
  "RobotVacuumCleaner_openAPIparseStatus sn ds s0 =
     (let body = ds_body ds;
          s = (if strict_eq (body ''power'') (JStr ''on'')
               then s0\<lparr>rvc_On := JBool True\<rparr>
               else s0\<lparr>rvc_On := JBool False\<rparr>);
          s = s\<lparr>rvc_BatteryLevel := Number_js sn (body ''battery'')\<rparr>;
          s = (if num_lt (rvc_BatteryLevel s) 10
               then s\<lparr>rvc_StatusLowBattery := BATTERY_LEVEL_LOW\<rparr>
               else s\<lparr>rvc_StatusLowBattery := BATTERY_LEVEL_NORMAL\<rparr>);
          s = (if Number_isNaN (rvc_BatteryLevel s) then s\<lparr>rvc_BatteryLevel := JNum 100\<rparr> else s)
      in s\<lparr>rvc_trace := rvc_trace s @ firmware_effects body\<rparr>)"

definition RobotVacuumCleaner_updateHomeKitCharacteristics :: "rvc \<Rightarrow> rvc" where
  "RobotVacuumCleaner_updateHomeKitCharacteristics s =
     (let fields = [(''On'', rvc_On s), (''Brightness'', rvc_Brightness s),
                    (''BatteryLevel'', rvc_BatteryLevel s),
                    (''StatusLowBattery'', rvc_StatusLowBattery s)]
      in s\<lparr>rvc_context := mirror_context fields (rvc_context s),
            rvc_trace := rvc_trace s @ mirror_effects fields\<rparr>)"

definition RobotVacuumCleaner_offlineOff :: "device_config \<Rightarrow> rvc \<Rightarrow> rvc" where
  "RobotVacuumCleaner_offlineOff cfg s =
     (if offline cfg
      then s\<lparr>rvc_trace := rvc_trace s @ [UpdateCharacteristic ''On'' (JBool False)]\<rparr>
      else s)"

definition RobotVacuumCleaner_apiError :: "rvc \<Rightarrow> rvc" where
  "RobotVacuumCleaner_apiError s = s\<lparr>rvc_trace := rvc_trace s @ [ErrorCharacteristic ''On'']\<rparr>"

definition RobotVacuumCleaner_openAPIRefreshStatus ::
  "(string \<Rightarrow> real option) \<Rightarrow> http_outcome \<Rightarrow> rvc \<Rightarrow> rvc" where
  "RobotVacuumCleaner_openAPIRefreshStatus sn reply s0 =
     (let s = s0\<lparr>rvc_trace := rvc_trace s0 @ [GetStatus]\<rparr>
      in case reply of
           Throws \<Rightarrow> RobotVacuumCleaner_apiError s
         | Reply statusCode deviceStatus \<Rightarrow>
             if dual_status_ok statusCode (ds_statusCode deviceStatus)
             then RobotVacuumCleaner_updateHomeKitCharacteristics
                    (RobotVacuumCleaner_openAPIparseStatus sn deviceStatus s)
             else s\<lparr>rvc_trace := rvc_trace s @
                      [StatusCode statusCode, StatusCode (ds_statusCode deviceStatus)]\<rparr>)"

definition RobotVacuumCleaner_refreshStatus ::
  "(string \<Rightarrow> real option) \<Rightarrow> device_config \<Rightarrow> http_outcome \<Rightarrow> rvc \<Rightarrow> rvc" where
  "RobotVacuumCleaner_refreshStatus sn cfg reply s =
     (if \<not> enableCloudService cfg \<and> OpenAPI cfg then s
      else if OpenAPI cfg \<and> token cfg then RobotVacuumCleaner_openAPIRefreshStatus sn reply s
      else RobotVacuumCleaner_offlineOff cfg s)"

text \<open>\<^verbatim>\<open>commands\<close> and \<^verbatim>\<open>brightnessCommands\<close>: the request body, as the effect of posting it.\<close>

definition RobotVacuumCleaner_commands :: "rvc \<Rightarrow> effect" where
  "RobotVacuumCleaner_commands s =
     (if truthy (rvc_On s) then PostCommand ''start'' ''default'' ''command''
      else PostCommand ''dock'' ''default'' ''command'')"

definition RobotVacuumCleaner_brightnessCommands :: "rvc \<Rightarrow> effect" where
  "RobotVacuumCleaner_brightnessCommands s =
     (if strict_eq (rvc_Brightness s) (JNum 25) then PostCommand ''PowLevel'' ''0'' ''command''
      else if strict_eq (rvc_Brightness s) (JNum 50) then PostCommand ''PowLevel'' ''1'' ''command''
      else if strict_eq (rvc_Brightness s) (JNum 75) then PostCommand ''PowLevel'' ''2'' ''command''
      else if strict_eq (rvc_Brightness s) (JNum 100) then PostCommand ''PowLevel'' ''3'' ''command''
      else PostCommand ''dock'' ''default'' ''command'')"

text \<open>What both senders do once the request is on its way.\<close>

definition RobotVacuumCleaner_after_post :: "http_outcome \<Rightarrow> rvc \<Rightarrow> rvc" where
  "RobotVacuumCleaner_after_post reply s =
     (case reply of
        Throws \<Rightarrow> RobotVacuumCleaner_apiError s
      | Reply statusCode deviceStatus \<Rightarrow>
          if dual_status_ok statusCode (ds_statusCode deviceStatus)
          then s
          else s\<lparr>rvc_trace := rvc_trace s @
                   [StatusCode statusCode, StatusCode (ds_statusCode deviceStatus)]\<rparr>)"

definition RobotVacuumCleaner_openAPIpushChanges :: "http_outcome \<Rightarrow> rvc \<Rightarrow> rvc" where
  "RobotVacuumCleaner_openAPIpushChanges reply s =
     (if \<not> strict_eq (rvc_On s) (rvc_context s ''On'')
      then RobotVacuumCleaner_after_post reply
             (s\<lparr>rvc_trace := rvc_trace s @ [RobotVacuumCleaner_commands s]\<rparr>)
      else s)"

definition RobotVacuumCleaner_openAPIpushBrightnessChanges :: "http_outcome \<Rightarrow> rvc \<Rightarrow> rvc" where
  "RobotVacuumCleaner_openAPIpushBrightnessChanges reply s =
     RobotVacuumCleaner_after_post reply
       (s\<lparr>rvc_trace := rvc_trace s @ [RobotVacuumCleaner_brightnessCommands s]\<rparr>)"

definition RobotVacuumCleaner_pushChanges :: "device_config \<Rightarrow> http_outcome \<Rightarrow> rvc \<Rightarrow> rvc" where
  "RobotVacuumCleaner_pushChanges cfg reply s =
     (let s' = (if \<not> enableCloudService cfg \<and> OpenAPI cfg then s
                else if OpenAPI cfg \<and> token cfg then RobotVacuumCleaner_openAPIpushChanges reply s
                else RobotVacuumCleaner_offlineOff cfg s)
      in s'\<lparr>rvc_confirm := rvc_confirm s' @ [15000]\<rparr>)"

definition RobotVacuumCleaner_update_next :: "rvc \<Rightarrow> rvc" where
  "RobotVacuumCleaner_update_next s =
     s\<lparr>rvc_robotVacuumCleanerUpdateInProgress := True, rvc_debounce_running := True\<rparr>"

definition RobotVacuumCleaner_OnSet :: "jsval \<Rightarrow> rvc \<Rightarrow> rvc" where
  "RobotVacuumCleaner_OnSet v s = RobotVacuumCleaner_update_next (s\<lparr>rvc_On := v\<rparr>)"

definition RobotVacuumCleaner_BrightnessSet :: "jsval \<Rightarrow> rvc \<Rightarrow> rvc" where
  "RobotVacuumCleaner_BrightnessSet v s = RobotVacuumCleaner_update_next (s\<lparr>rvc_Brightness := v\<rparr>)"

text \<open>
  The subscriber behind \<^verbatim>\<open>debounceTime\<close>: \<^verbatim>\<open>pushChanges\<close> when \<^verbatim>\<open>On\<close> differs from the
  cached value, then the suction level when the cleaner is on and \<^verbatim>\<open>Brightness\<close> differs.
  Each request has a reply of its own. Nothing in the \<^verbatim>\<open>try\<close> throws: both senders catch
  their errors.
\<close>

definition RobotVacuumCleaner_debounce_elapsed ::
  "device_config \<Rightarrow> http_outcome \<Rightarrow> http_outcome \<Rightarrow> rvc \<Rightarrow> rvc" where
  "RobotVacuumCleaner_debounce_elapsed cfg reply reply' s0 =
     (if rvc_debounce_running s0
      then (let s = s0\<lparr>rvc_debounce_running := False\<rparr>;
                s = (if \<not> strict_eq (rvc_On s) (rvc_context s ''On'')
                     then RobotVacuumCleaner_pushChanges cfg reply s else s);
                s = (if truthy (rvc_On s) \<and> \<not> strict_eq (rvc_Brightness s) (rvc_context s ''Brightness'')
                     then RobotVacuumCleaner_openAPIpushBrightnessChanges reply' s else s)
            in s\<lparr>rvc_robotVacuumCleanerUpdateInProgress := False\<rparr>)
      else s0)"

definition RobotVacuumCleaner_refresh_tick ::
  "(string \<Rightarrow> real option) \<Rightarrow> device_config \<Rightarrow> http_outcome \<Rightarrow> rvc \<Rightarrow> rvc" where
  "RobotVacuumCleaner_refresh_tick sn cfg reply s0 =
     (let s = s0\<lparr>rvc_refresh_taking :=
                   skipWhile (rvc_refresh_taking s0) (rvc_robotVacuumCleanerUpdateInProgress s0)\<rparr>
      in if rvc_refresh_taking s then RobotVacuumCleaner_refreshStatus sn cfg reply s else s)"

definition RobotVacuumCleaner_confirm_tick ::
  "(string \<Rightarrow> real option) \<Rightarrow> device_config \<Rightarrow> nat \<Rightarrow> http_outcome \<Rightarrow> rvc \<Rightarrow> rvc" where
  "RobotVacuumCleaner_confirm_tick sn cfg i reply s =
     (if i < length (rvc_confirm s) \<and> skipWhile False (rvc_robotVacuumCleanerUpdateInProgress s)
      then RobotVacuumCleaner_refreshStatus sn cfg reply
             (s\<lparr>rvc_confirm := take i (rvc_confirm s) @ drop (Suc i) (rvc_confirm s)\<rparr>)
      else s)"

datatype rvc_event =
    OnSet jsval
  | BrightnessSet jsval
  | RvcDebounceElapsed http_outcome http_outcome
  | RvcRefreshTick http_outcome
  | RvcConfirmTick nat http_outcome

fun rvc_step :: "(string \<Rightarrow> real option) \<Rightarrow> device_config \<Rightarrow> rvc \<Rightarrow> rvc_event \<Rightarrow> rvc" where
  "rvc_step sn cfg s (OnSet v) = RobotVacuumCleaner_OnSet v s"
| "rvc_step sn cfg s (BrightnessSet v) = RobotVacuumCleaner_BrightnessSet v s"
| "rvc_step sn cfg s (RvcDebounceElapsed reply reply') = RobotVacuumCleaner_debounce_elapsed cfg reply reply' s"
| "rvc_step sn cfg s (RvcRefreshTick reply) = RobotVacuumCleaner_refresh_tick sn cfg reply s"
| "rvc_step sn cfg s (RvcConfirmTick i reply) = RobotVacuumCleaner_confirm_tick sn cfg i reply s"

definition rvc_run :: "(string \<Rightarrow> real option) \<Rightarrow> device_config \<Rightarrow> rvc \<Rightarrow> rvc_event list \<Rightarrow> rvc" where
  "rvc_run sn cfg s es = foldl (rvc_step sn cfg) s es"

section \<open>Contact sensor\<close>

text \<open>
  The contact sensor reads four more settings: \<^verbatim>\<open>device.contact?.hide_motionsensor\<close>,
  \<^verbatim>\<open>hide_lightsensor\<close>, \<^verbatim>\<open>set_minLux\<close> and \<^verbatim>\<open>set_maxLux\<close>.
\<close>

record contact_config = device_config +
  hide_motionsensor :: bool
  hide_lightsensor :: bool
  set_minLux :: jsval
  set_maxLux :: jsval

text \<open>
  The class declares its field \<^verbatim>\<open>Battery\<close> and no line of it assigns the field (the fan
  and the cleaner assign theirs in the constructor). So \<^verbatim>\<open>this.Battery\<close> is
  \<^verbatim>\<open>undefined\<close> in every contact sensor, and a routine that reaches
  \<^verbatim>\<open>this.Battery.BatteryLevel\<close> throws a TypeError there. The state has no battery
  fields, and each routine below that reads \<^verbatim>\<open>this.Battery\<close> ends at that line, leaving
  what it did before. These routines are \<^verbatim>\<open>async\<close>: the throw rejects their promise, and
  a caller that does not await them goes on.

  The constructor throws too, no later than its own battery lines
  (\<^verbatim>\<open>this.Battery.Service = ...\<close>), after it has called \<^verbatim>\<open>refreshStatus\<close>. That one refresh
  goes on when its reply arrives. The periodic interval and the webhook handler, which the
  constructor sets up after those lines, never exist; so the contact sensor has no webhook
  handler here.
\<close>

record contact =
  ct_ContactSensorState :: jsval
  ct_MotionDetected :: jsval
  ct_CurrentAmbientLightLevel :: jsval
  ct_context :: jsobj
  ct_trace :: "effect list"

definition minLux :: "contact_config \<Rightarrow> jsval" where
  "minLux cfg = (if truthy (set_minLux cfg) then set_minLux cfg else JNum 1)"

definition maxLux :: "contact_config \<Rightarrow> jsval" where
  "maxLux cfg = (if truthy (set_maxLux cfg) then set_maxLux cfg else JNum 6001)"


text \<open>
  \<^verbatim>\<open>openAPIparseStatus\<close> in two parts. The first runs up to the function's first
  \<^verbatim>\<open>await\<close> (contact and motion state). The second is the rest: the light level, when
  the light sensor is shown, and the battery block, which throws; the firmware block
  after it is never reached. When the light sensor is hidden the function has no
  \<^verbatim>\<open>await\<close> before the throw.
\<close>

definition Contact_openAPIparseStatus_head :: "contact_config \<Rightarrow> deviceStatus \<Rightarrow> contact \<Rightarrow> contact" where
  "Contact_openAPIparseStatus_head cfg ds s0 =
     (let body = ds_body ds;
          s = (if strict_eq (body ''openState'') (JStr ''open'')
               then s0\<lparr>ct_ContactSensorState := CONTACT_NOT_DETECTED\<rparr>
               else if strict_eq (body ''openState'') (JStr ''close'')
               then s0\<lparr>ct_ContactSensorState := CONTACT_DETECTED\<rparr>
               else s0)
      in if \<not> hide_motionsensor cfg then s\<lparr>ct_MotionDetected := body ''moveDetected''\<rparr> else s)"

definition Contact_openAPIparseStatus_tail ::
  "contact_config \<Rightarrow> deviceStatus \<Rightarrow> contact \<Rightarrow> contact completion" where
  "Contact_openAPIparseStatus_tail cfg ds s0 =
     (let body = ds_body ds;
          s = (if \<not> hide_lightsensor cfg
               then (if strict_eq (body ''brightness'') (JStr ''dim'')
                     then s0\<lparr>ct_CurrentAmbientLightLevel := minLux cfg\<rparr>
                     else s0\<lparr>ct_CurrentAmbientLightLevel := maxLux cfg\<rparr>)
               else s0);
          s = (if strict_eq (body ''battery'') Undefined
               then expression_statement (strict_eq (body ''battery'') (JNum 100)) s
               else s)
      in Threw s)"


text \<open>
  \<^verbatim>\<open>updateHomeKitCharacteristics\<close> mirrors the contact state, the motion state and the
  light level, and throws at its next line, \<^verbatim>\<open>if (this.Battery.BatteryLevel === undefined)\<close>.
\<close>

definition Contact_updateHomeKitCharacteristics :: "contact_config \<Rightarrow> contact \<Rightarrow> contact completion" where
  "Contact_updateHomeKitCharacteristics cfg s =
     (let fields = [(''ContactSensorState'', ct_ContactSensorState s)]
                   @ (if \<not> hide_motionsensor cfg then [(''MotionDetected'', ct_MotionDetected s)] else [])
                   @ (if \<not> hide_lightsensor cfg
                      then [(''CurrentAmbientLightLevel'', ct_CurrentAmbientLightLevel s)] else [])
      in Threw (s\<lparr>ct_context := mirror_context fields (ct_context s),
                   ct_trace := ct_trace s @ mirror_effects fields\<rparr>))"




section \<open>Infrared remotes shown as another device type\<close>

text \<open>
  \<^verbatim>\<open>Others\<close> shows an infrared remote as one of ten service types. Its constructor builds
  one service object, the one of \<^verbatim>\<open>otherDeviceType\<close> (\<^verbatim>\<open>Outlet\<close> for a type it does not
  name); \<open>oth_On\<close> is the \<^verbatim>\<open>On\<close> of that object. The other nine objects stay
  \<^verbatim>\<open>undefined\<close>.
\<close>

record others =
  oth_otherDeviceType :: string
  oth_On :: jsval
  oth_connectionType :: string
  oth_trace :: "effect list"





section \<open>The routine that receives a failed reply's codes\<close>

text \<open>Modelled from the spec: the kinds of error of its error taxonomy.\<close>

datatype error_kind = InvalidValue | TransportTimeout | VendorRejected | DeviceUnreachable | ParseError







section \<open>Reading a trace\<close>

text \<open>The commands a trace sent to the device, over either transport, in order.\<close>

fun is_dispatch :: "effect \<Rightarrow> bool" where
  "is_dispatch (PostCommand c p t) = True"
| "is_dispatch (BLECommand c) = True"
| "is_dispatch e = False"

definition dispatches :: "effect list \<Rightarrow> effect list" where
  "dispatches tr = filter is_dispatch tr"

text \<open>The number of status fetches a trace started.\<close>

fun fetches :: "effect list \<Rightarrow> nat" where
  "fetches [] = 0"
| "fetches (GetStatus # tr) = Suc (fetches tr)"
| "fetches (e # tr) = fetches tr"



text \<open>The arguments of the \<^verbatim>\<open>statusCode\<close> calls of a trace, in order.\<close>

fun statusCode_calls :: "effect list \<Rightarrow> jsval list" where
  "statusCode_calls [] = []"
| "statusCode_calls (StatusCode v # tr) = v # statusCode_calls tr"
| "statusCode_calls (e # tr) = statusCode_calls tr"

section \<open>Concrete devices and replies\<close>

definition cloud_config :: device_config where
  "cloud_config =
     \<lparr>enableCloudService = True, OpenAPI = True, BLE = False, token = True,
      connectionType = ''OpenAPI'', offline = False\<rparr>"

definition ble_config :: device_config where
  "ble_config =
     \<lparr>enableCloudService = False, OpenAPI = False, BLE = True, token = False,
      connectionType = ''BLE'', offline = False\<rparr>"

text \<open>
  A fan that is off and at rest: the constructor's defaults, already mirrored to
  \<^verbatim>\<open>accessory.context\<close>, no write pending, an empty trace.
\<close>

definition fan_at_rest :: fan where
  "fan_at_rest =
     \<lparr>fan_Active = INACTIVE, fan_SwingMode = SWING_DISABLED, fan_RotationSpeed = JNum 0,
      fan_BatteryLevel = JNum 100, fan_StatusLowBattery = BATTERY_LEVEL_NORMAL,
      fan_ChargingState = NOT_CHARGING,
      fan_context =
        mirror_context
          [(''Active'', INACTIVE), (''RotationSpeed'', JNum 0), (''SwingMode'', SWING_DISABLED),
           (''BatteryLevel'', JNum 100), (''ChargingState'', NOT_CHARGING),
           (''StatusLowBattery'', BATTERY_LEVEL_NORMAL)]
          empty_object,
      fan_trace = [], fan_plugUpdateInProgress = False, fan_debounce_running = False,
      fan_refresh_taking = False, fan_confirm = [], fan_ble_inflight = 0\<rparr>"

text \<open>A cleaner that is running at suction level 25, at rest in the same sense.\<close>

definition rvc_at_rest :: rvc where
  "rvc_at_rest =
     \<lparr>rvc_On = JBool True, rvc_Brightness = JNum 25, rvc_BatteryLevel = JNum 100,
      rvc_StatusLowBattery = BATTERY_LEVEL_NORMAL,
      rvc_context =
        mirror_context
          [(''On'', JBool True), (''Brightness'', JNum 25), (''BatteryLevel'', JNum 100),
           (''StatusLowBattery'', BATTERY_LEVEL_NORMAL)]
          empty_object,
      rvc_trace = [], rvc_robotVacuumCleanerUpdateInProgress = False,
      rvc_debounce_running = False, rvc_refresh_taking = False, rvc_confirm = []\<rparr>"

text \<open>A contact sensor showing both extra sensors, with an open door.\<close>

definition contact_config_default :: contact_config where
  "contact_config_default =
     \<lparr>enableCloudService = True, OpenAPI = True, BLE = False, token = True,
      connectionType = ''OpenAPI'', offline = False,
      hide_motionsensor = False, hide_lightsensor = False,
      set_minLux = Undefined, set_maxLux = Undefined\<rparr>"

definition contact_open :: contact where
  "contact_open =
     \<lparr>ct_ContactSensorState = CONTACT_NOT_DETECTED, ct_MotionDetected = JBool False,
      ct_CurrentAmbientLightLevel = JNum 6001,
      ct_context =
        mirror_context
          [(''ContactSensorState'', CONTACT_NOT_DETECTED), (''MotionDetected'', JBool False),
           (''CurrentAmbientLightLevel'', JNum 6001)]
          empty_object,
      ct_trace = []\<rparr>"

text \<open>Replies of the cloud: a command accepted, a command refused with vendor status 171.\<close>

definition reply_accepted :: http_outcome where
  "reply_accepted = Reply (JNum 200) \<lparr>ds_statusCode = JNum 100, ds_body = empty_object\<rparr>"

definition reply_171 :: http_outcome where
  "reply_171 = Reply (JNum 200) \<lparr>ds_statusCode = JNum 171, ds_body = empty_object\<rparr>"

text \<open>The status of a fan that is off, as the cloud reports it.\<close>

definition fan_body_off :: jsobj where
  "fan_body_off =
     empty_object(''power'' := JStr ''off'', ''oscillation'' := JStr ''off'', ''fanSpeed'' := JNum 0,
       ''chargingStatus'' := JStr ''uncharged'', ''battery'' := JNum 100)"

definition reply_fan_off :: http_outcome where
  "reply_fan_off = Reply (JNum 200) \<lparr>ds_statusCode = JNum 100, ds_body = fan_body_off\<rparr>"

definition rvc_body_on :: jsobj where
  "rvc_body_on = empty_object(''power'' := JStr ''on'', ''battery'' := JNum 100)"

definition reply_rvc_on :: http_outcome where
  "reply_rvc_on = Reply (JNum 200) \<lparr>ds_statusCode = JNum 100, ds_body = rvc_body_on\<rparr>"

text \<open>A status without a battery field.\<close>

definition contact_body_no_battery :: jsobj where
  "contact_body_no_battery =
     empty_object(''openState'' := JStr ''open'', ''moveDetected'' := JBool False,
       ''brightness'' := JStr ''bright'')"

definition status_no_battery :: deviceStatus where
  "status_no_battery = \<lparr>ds_statusCode = JNum 100, ds_body = contact_body_no_battery\<rparr>"

text \<open>The status of a contact sensor whose door is closed, as a reply body.\<close>

definition contact_body_closed :: jsobj where
  "contact_body_closed =
     empty_object(''openState'' := JStr ''close'', ''moveDetected'' := JBool True,
       ''brightness'' := JStr ''dim'', ''battery'' := JNum 7)"

definition status_contact_closed :: deviceStatus where
  "status_contact_closed = \<lparr>ds_statusCode = JNum 100, ds_body = contact_body_closed\<rparr>"

text \<open>Service data of the local radio with a battery at 7 and at 10 percent.\<close>

definition serviceData_battery_7 :: jsobj where
  "serviceData_battery_7 = empty_object(''battery'' := JNum 7)"

definition serviceData_battery_10 :: jsobj where
  "serviceData_battery_10 = empty_object(''battery'' := JNum 10)"

definition status_battery_7 :: deviceStatus where
  "status_battery_7 = \<lparr>ds_statusCode = JNum 100, ds_body = serviceData_battery_7\<rparr>"

definition status_battery_10 :: deviceStatus where
  "status_battery_10 = \<lparr>ds_statusCode = JNum 100, ds_body = serviceData_battery_10\<rparr>"

text \<open>
  The status of a running fan whose battery is at 5 percent, once as the body of a status
  reply and once as a webhook event.
\<close>

definition fan_body_low :: jsobj where
  "fan_body_low =
     empty_object(''power'' := JStr ''on'', ''oscillation'' := JStr ''on'', ''fanSpeed'' := JNum 50,
       ''chargingStatus'' := JStr ''charging'', ''battery'' := JNum 5)"

definition status_fan_low :: deviceStatus where
  "status_fan_low = \<lparr>ds_statusCode = JNum 100, ds_body = fan_body_low\<rparr>"

definition fan_event_low :: jsobj where
  "fan_event_low =
     empty_object(''powerState'' := JStr ''ON'', ''oscillation'' := JStr ''on'', ''fanSpeed'' := JNum 50,
       ''chargingStatus'' := JStr ''charging'', ''battery'' := JNum 5)"

text \<open>The status of a running fan without a battery field.\<close>

definition fan_body_no_battery :: jsobj where
  "fan_body_no_battery =
     empty_object(''power'' := JStr ''on'', ''oscillation'' := JStr ''off'', ''fanSpeed'' := JNum 30,
       ''chargingStatus'' := JStr ''uncharged'')"

definition status_fan_no_battery :: deviceStatus where
  "status_fan_no_battery = \<lparr>ds_statusCode = JNum 100, ds_body = fan_body_no_battery\<rparr>"

text \<open>A reply refused with vendor status 171, and a remote shown as a switch that is on.\<close>

definition status_171 :: deviceStatus where
  "status_171 = \<lparr>ds_statusCode = JNum 171, ds_body = empty_object\<rparr>"

definition switch_on :: others where
  "switch_on =
     \<lparr>oth_otherDeviceType = ''switch'', oth_On = JBool True, oth_connectionType = ''OpenAPI'',
      oth_trace = []\<rparr>"

section \<open>Properties\<close>

lemmas js_defs = strict_eq_def Number_isNaN_def expression_statement_def empty_object_def
  no_numeric_strings_def dual_status_ok_def skipWhile_def firmware_effects_def

lemmas fan_defs = Fan_openAPIparseStatus_def Fan_updateHomeKitCharacteristics_def Fan_offlineOff_def
  Fan_apiError_def Fan_openAPIRefreshStatus_def Fan_refreshStatus_def Fan_openAPIpushChanges_def
  Fan_BLEpushChanges_def Fan_BLEPushConnection_def Fan_BLEsettled_def Fan_pushChanges_def
  Fan_doPlugUpdate_next_def Fan_ActiveSet_def Fan_RotationSpeedSet_def Fan_SwingModeSet_def
  Fan_debounce_elapsed_def Fan_refresh_tick_def Fan_confirm_tick_def fan_run_def

lemmas rvc_defs = RobotVacuumCleaner_openAPIparseStatus_def
  RobotVacuumCleaner_updateHomeKitCharacteristics_def RobotVacuumCleaner_offlineOff_def
  RobotVacuumCleaner_apiError_def RobotVacuumCleaner_openAPIRefreshStatus_def
  RobotVacuumCleaner_refreshStatus_def RobotVacuumCleaner_commands_def
  RobotVacuumCleaner_brightnessCommands_def RobotVacuumCleaner_after_post_def
  RobotVacuumCleaner_openAPIpushChanges_def RobotVacuumCleaner_openAPIpushBrightnessChanges_def
  RobotVacuumCleaner_pushChanges_def RobotVacuumCleaner_update_next_def
  RobotVacuumCleaner_OnSet_def RobotVacuumCleaner_BrightnessSet_def
  RobotVacuumCleaner_debounce_elapsed_def RobotVacuumCleaner_refresh_tick_def
  RobotVacuumCleaner_confirm_tick_def rvc_run_def


lemmas example_defs = cloud_config_def ble_config_def fan_at_rest_def rvc_at_rest_def
  contact_config_default_def contact_open_def reply_accepted_def reply_171_def fan_body_off_def
  reply_fan_off_def rvc_body_on_def reply_rvc_on_def contact_body_no_battery_def
  status_no_battery_def contact_body_closed_def status_contact_closed_def
  serviceData_battery_7_def serviceData_battery_10_def status_battery_7_def
  status_battery_10_def fan_body_low_def status_fan_low_def fan_event_low_def
  fan_body_no_battery_def status_fan_no_battery_def status_171_def switch_on_def

subsection \<open>Field by field\<close>


lemma statusCode_calls_append [simp]:
  "statusCode_calls (xs @ ys) = statusCode_calls xs @ statusCode_calls ys"
  by (induction xs rule: statusCode_calls.induct) simp_all

lemma statusCode_calls_mirror_effects [simp]:
  "statusCode_calls (mirror_effects fs) = []"
  by (induction fs) auto



text \<open>What each routine of the contact sensor has left in each field when it stops.\<close>

lemma Contact_head_fields [simp]:
  "ct_ContactSensorState (Contact_openAPIparseStatus_head cfg ds s) =
     (if ds_body ds ''openState'' = JStr ''open'' then CONTACT_NOT_DETECTED
      else if ds_body ds ''openState'' = JStr ''close'' then CONTACT_DETECTED
      else ct_ContactSensorState s)"
  "ct_MotionDetected (Contact_openAPIparseStatus_head cfg ds s) =
     (if hide_motionsensor cfg then ct_MotionDetected s else ds_body ds ''moveDetected'')"
  "ct_CurrentAmbientLightLevel (Contact_openAPIparseStatus_head cfg ds s) = ct_CurrentAmbientLightLevel s"
  "ct_context (Contact_openAPIparseStatus_head cfg ds s) = ct_context s"
  "ct_trace (Contact_openAPIparseStatus_head cfg ds s) = ct_trace s"
  by (simp_all add: Contact_openAPIparseStatus_head_def strict_eq_def Let_def)

lemma Contact_tail_fields [simp]:
  "ct_ContactSensorState (state_of (Contact_openAPIparseStatus_tail cfg ds s)) = ct_ContactSensorState s"
  "ct_MotionDetected (state_of (Contact_openAPIparseStatus_tail cfg ds s)) = ct_MotionDetected s"
  "ct_CurrentAmbientLightLevel (state_of (Contact_openAPIparseStatus_tail cfg ds s)) =
     (if hide_lightsensor cfg then ct_CurrentAmbientLightLevel s
      else if ds_body ds ''brightness'' = JStr ''dim'' then minLux cfg else maxLux cfg)"
  "ct_context (state_of (Contact_openAPIparseStatus_tail cfg ds s)) = ct_context s"
  "ct_trace (state_of (Contact_openAPIparseStatus_tail cfg ds s)) = ct_trace s"
  by (simp_all add: Contact_openAPIparseStatus_tail_def expression_statement_def strict_eq_def Let_def)

lemma Contact_update_fields [simp]:
  "ct_ContactSensorState (state_of (Contact_updateHomeKitCharacteristics cfg s)) = ct_ContactSensorState s"
  "ct_MotionDetected (state_of (Contact_updateHomeKitCharacteristics cfg s)) = ct_MotionDetected s"
  "ct_CurrentAmbientLightLevel (state_of (Contact_updateHomeKitCharacteristics cfg s)) =
     ct_CurrentAmbientLightLevel s"
  "statusCode_calls (ct_trace (state_of (Contact_updateHomeKitCharacteristics cfg s))) =
     statusCode_calls (ct_trace s)"
  by (simp_all add: Contact_updateHomeKitCharacteristics_def Let_def)





text \<open>What \<^verbatim>\<open>updateHomeKitCharacteristics\<close> of the fan leaves in each field and cache entry.\<close>

lemma Fan_update_fields [simp]:
  "fan_Active (Fan_updateHomeKitCharacteristics s) = fan_Active s"
  "fan_SwingMode (Fan_updateHomeKitCharacteristics s) = fan_SwingMode s"
  "fan_RotationSpeed (Fan_updateHomeKitCharacteristics s) = fan_RotationSpeed s"
  "fan_BatteryLevel (Fan_updateHomeKitCharacteristics s) = fan_BatteryLevel s"
  "fan_StatusLowBattery (Fan_updateHomeKitCharacteristics s) = fan_StatusLowBattery s"
  "fan_ChargingState (Fan_updateHomeKitCharacteristics s) = fan_ChargingState s"
  by (simp_all add: Fan_updateHomeKitCharacteristics_def Let_def)


subsection \<open>The guard of the periodic refresh\<close>

text \<open>
  Before its first value has passed, the periodic interval does skip a tick that finds the
  flag set. Once a value has passed, every tick runs \<^verbatim>\<open>refreshStatus\<close>, whatever the flag.
\<close>

lemma refresh_tick_skipped_before_first_pass:
  "\<not> fan_refresh_taking s \<Longrightarrow> fan_plugUpdateInProgress s \<Longrightarrow> Fan_refresh_tick sn cfg reply s = s"
  by (simp add: Fan_refresh_tick_def skipWhile_def Let_def)

lemma refresh_tick_after_first_pass:
  "fan_refresh_taking s \<Longrightarrow> Fan_refresh_tick sn cfg reply s = Fan_refreshStatus sn cfg reply s"
  by (cases s) (simp add: Fan_refresh_tick_def skipWhile_def Let_def)

text \<open>
  C1. Claimed: while the update-in-progress flag is set, a periodic refresh tick is skipped
  and no fetch is attempted. The code does otherwise. A fan (and a cleaner) on the cloud
  transport, at rest: the first tick finds the flag clear and fetches; a setter then sets
  the flag and starts the debounce timer; the next tick, arriving before that timer
  elapses, finds the flag set and fetches all the same, so the trace holds two fetches.
\<close>

theorem C1_refresh_runs_during_write:
  "fan_plugUpdateInProgress
     (fan_run no_numeric_strings cloud_config fan_at_rest [RefreshTick reply_fan_off, ActiveSet ACTIVE])
   \<and> fetches (fan_trace
       (fan_run no_numeric_strings cloud_config fan_at_rest [RefreshTick reply_fan_off, ActiveSet ACTIVE])) = 1
   \<and> fetches (fan_trace
       (fan_run no_numeric_strings cloud_config fan_at_rest
          [RefreshTick reply_fan_off, ActiveSet ACTIVE, RefreshTick reply_fan_off])) = 2
   \<and> rvc_robotVacuumCleanerUpdateInProgress
     (rvc_run no_numeric_strings cloud_config rvc_at_rest [RvcRefreshTick reply_rvc_on, OnSet (JBool False)])
   \<and> fetches (rvc_trace
       (rvc_run no_numeric_strings cloud_config rvc_at_rest [RvcRefreshTick reply_rvc_on, OnSet (JBool False)])) = 1
   \<and> fetches (rvc_trace
       (rvc_run no_numeric_strings cloud_config rvc_at_rest
          [RvcRefreshTick reply_rvc_on, OnSet (JBool False), RvcRefreshTick reply_rvc_on])) = 2"
  by (simp add: js_defs fan_defs rvc_defs example_defs hap_defs Let_def)

subsection \<open>Debounced writes\<close>

text \<open>
  C2, as claimed: two setter calls within one debounce window produce exactly one dispatch.
  It fails when the second call restores the cached value: switched on and off again
  within the window, a fan that was off sends nothing.
\<close>

theorem C2_counterexample:
  "dispatches (fan_trace (fan_run no_numeric_strings cloud_config fan_at_rest
      [ActiveSet ACTIVE, ActiveSet INACTIVE, DebounceElapsed Connected reply_accepted])) = []"
  by (simp add: js_defs fan_defs example_defs hap_defs dispatches_def Let_def)

text \<open>
  C2, amended. On the cloud transport, two \<^verbatim>\<open>ActiveSet\<close> calls within one debounce window
  run the push handler once (a further expiry of the timer does nothing), and the handler
  sends at most one command: none when the second value is strictly equal to the cached
  \<^verbatim>\<open>context.Active\<close>, otherwise one, \<^verbatim>\<open>turnOn\<close> or \<^verbatim>\<open>turnOff\<close> by the truthiness of the second
  value.
\<close>

theorem C2_coalesced_write:
  assumes "enableCloudService cfg" and "OpenAPI cfg" and "\<not> BLE cfg" and "token cfg"
  shows "dispatches (fan_trace (fan_run sn cfg s
            [ActiveSet v1, ActiveSet v2, DebounceElapsed conn reply])) =
         dispatches (fan_trace s) @
           (if \<not> strict_eq v2 (fan_context s ''Active'')
            then [PostCommand (if truthy v2 then ''turnOn'' else ''turnOff'') ''default'' ''command'']
            else [])
       \<and> fan_run sn cfg s
           [ActiveSet v1, ActiveSet v2, DebounceElapsed conn reply, DebounceElapsed conn' reply'] =
         fan_run sn cfg s [ActiveSet v1, ActiveSet v2, DebounceElapsed conn reply]"
  using assms
  by (cases reply) (simp_all add: fan_defs dispatches_def Let_def)

theorem C2_coalesced_write_witness:
  "enableCloudService cloud_config \<and> OpenAPI cloud_config \<and> \<not> BLE cloud_config \<and> token cloud_config
   \<and> dispatches (fan_trace (fan_run no_numeric_strings cloud_config fan_at_rest
        [ActiveSet INACTIVE, ActiveSet ACTIVE, DebounceElapsed Connected reply_accepted])) =
      [PostCommand ''turnOn'' ''default'' ''command'']"
  using C2_coalesced_write [of cloud_config no_numeric_strings fan_at_rest INACTIVE ACTIVE
      Connected reply_accepted]
  by (simp add: js_defs example_defs hap_defs dispatches_def)

subsection \<open>A command the vendor refuses\<close>



subsection \<open>A status without a battery field\<close>




subsection \<open>Webhook events and refreshes\<close>




subsection \<open>The dual status check\<close>




subsection \<open>The low-battery threshold\<close>



subsection \<open>The confirmation refresh\<close>

text \<open>
  Every \<^verbatim>\<open>pushChanges\<close> that returns starts one interval of 15000 ms. A tick of that
  interval runs \<^verbatim>\<open>refreshStatus\<close> once and ends the interval when the flag is clear, and
  leaves the interval waiting when the flag is set.
\<close>

lemma Fan_pushChanges_starts_interval:
  "Fan_pushChanges cfg conn reply s = Returned s' \<Longrightarrow> fan_confirm s' = fan_confirm s @ [15000]"
  by (cases conn; cases reply)
     (auto simp add: Fan_pushChanges_def Fan_BLEpushChanges_def Fan_openAPIpushChanges_def
        Fan_offlineOff_def Fan_apiError_def Let_def split: if_splits)

lemma RobotVacuumCleaner_pushChanges_starts_interval:
  "rvc_confirm (RobotVacuumCleaner_pushChanges cfg reply s) = rvc_confirm s @ [15000]"
  by (cases reply)
     (simp_all add: RobotVacuumCleaner_pushChanges_def RobotVacuumCleaner_openAPIpushChanges_def
        RobotVacuumCleaner_after_post_def RobotVacuumCleaner_offlineOff_def
        RobotVacuumCleaner_apiError_def Let_def)

lemma Fan_confirm_tick_one_shot:
  "i < length (fan_confirm s) \<Longrightarrow> \<not> fan_plugUpdateInProgress s \<Longrightarrow>
   Fan_confirm_tick sn cfg i reply s =
     Fan_refreshStatus sn cfg reply (s\<lparr>fan_confirm := take i (fan_confirm s) @ drop (Suc i) (fan_confirm s)\<rparr>)"
  by (simp add: Fan_confirm_tick_def skipWhile_def)

lemma Fan_confirm_tick_waits:
  "fan_plugUpdateInProgress s \<Longrightarrow> Fan_confirm_tick sn cfg i reply s = s"
  by (simp add: Fan_confirm_tick_def skipWhile_def)

text \<open>
  C8. Claimed: every write dispatch that is acknowledged is followed by a one-shot
  confirmation refresh, 15 seconds on. The cleaner's suction-level write does not go
  through \<^verbatim>\<open>pushChanges\<close>: with the cleaner running at level 25, \<^verbatim>\<open>BrightnessSet(50)\<close> posts
  \<^verbatim>\<open>PowLevel 1\<close>, the cloud accepts it, and no interval is started. The power write in the
  same handler (\<^verbatim>\<open>OnSet(false)\<close>, posting \<^verbatim>\<open>dock\<close>) does start one.
\<close>

theorem C8_suction_write_without_confirmation:
  "rvc_trace (rvc_run no_numeric_strings cloud_config rvc_at_rest
      [BrightnessSet (JNum 50), RvcDebounceElapsed reply_accepted reply_accepted]) =
     [PostCommand ''PowLevel'' ''1'' ''command'']
   \<and> rvc_confirm (rvc_run no_numeric_strings cloud_config rvc_at_rest
      [BrightnessSet (JNum 50), RvcDebounceElapsed reply_accepted reply_accepted]) = []
   \<and> rvc_trace (rvc_run no_numeric_strings cloud_config rvc_at_rest
      [OnSet (JBool False), RvcDebounceElapsed reply_accepted reply_accepted]) =
     [PostCommand ''dock'' ''default'' ''command'']
   \<and> rvc_confirm (rvc_run no_numeric_strings cloud_config rvc_at_rest
      [OnSet (JBool False), RvcDebounceElapsed reply_accepted reply_accepted]) = [15000]"
  by (simp add: js_defs rvc_defs example_defs hap_defs Let_def)

subsection \<open>The battery fallback of the cloud decoders\<close>

text \<open>
  C9. In the cloud decoders of the fan and of the cleaner, whenever \<^verbatim>\<open>Number(battery)\<close> is
  NaN (the field is absent, or no number), \<^verbatim>\<open>BatteryLevel\<close> ends at 100 and
  \<^verbatim>\<open>StatusLowBattery\<close> at NORMAL.
\<close>

theorem C9_nan_battery_fallback:
  assumes "Number_js sn (ds_body ds ''battery'') = JNaN"
  shows "fan_BatteryLevel (Fan_openAPIparseStatus sn ds f) = JNum 100
       \<and> fan_StatusLowBattery (Fan_openAPIparseStatus sn ds f) = BATTERY_LEVEL_NORMAL
       \<and> rvc_BatteryLevel (RobotVacuumCleaner_openAPIparseStatus sn ds r) = JNum 100
       \<and> rvc_StatusLowBattery (RobotVacuumCleaner_openAPIparseStatus sn ds r) = BATTERY_LEVEL_NORMAL"
  using assms
  by (simp add: Number_isNaN_def Fan_openAPIparseStatus_def
      RobotVacuumCleaner_openAPIparseStatus_def Let_def)

theorem C9_nan_battery_fallback_witness:
  "Number_js no_numeric_strings (ds_body status_no_battery ''battery'') = JNaN
   \<and> fan_BatteryLevel (Fan_openAPIparseStatus no_numeric_strings status_no_battery
        (fan_at_rest\<lparr>fan_BatteryLevel := JNum 5, fan_StatusLowBattery := BATTERY_LEVEL_LOW\<rparr>)) = JNum 100
   \<and> fan_StatusLowBattery (Fan_openAPIparseStatus no_numeric_strings status_no_battery
        (fan_at_rest\<lparr>fan_BatteryLevel := JNum 5, fan_StatusLowBattery := BATTERY_LEVEL_LOW\<rparr>)) =
        BATTERY_LEVEL_NORMAL
   \<and> rvc_BatteryLevel (RobotVacuumCleaner_openAPIparseStatus no_numeric_strings status_no_battery
        rvc_at_rest) = JNum 100"
  using C9_nan_battery_fallback [of no_numeric_strings status_no_battery
      "fan_at_rest\<lparr>fan_BatteryLevel := JNum 5, fan_StatusLowBattery := BATTERY_LEVEL_LOW\<rparr>" rvc_at_rest]
  by (simp add: status_no_battery_def contact_body_no_battery_def empty_object_def)

subsection \<open>A push over the local radio\<close>

text \<open>
  C10. When a local-radio push of the fan succeeds, \<^verbatim>\<open>Fan.Active\<close> is set to \<^verbatim>\<open>false\<close> after
  the command has been sent, whether the command was \<^verbatim>\<open>turnOn\<close> or \<^verbatim>\<open>turnOff\<close>.
\<close>

theorem C10_ble_success_clears_active:
  assumes "0 < fan_ble_inflight s"
  shows "fan_Active (Fan_BLEsettled cfg True reply s) = JBool False
       \<and> fan_trace (Fan_BLEsettled cfg True reply s) =
           fan_trace s @ [BLECommand (if truthy (fan_Active s) then ''turnOn'' else ''turnOff'')]"
  using assms
  by (cases "fan_ble_inflight s") (simp_all add: Fan_BLEsettled_def Let_def)

theorem C10_ble_success_clears_active_witness:
  "0 < fan_ble_inflight (fan_run no_numeric_strings ble_config fan_at_rest
         [ActiveSet ACTIVE, DebounceElapsed Connected Throws])
   \<and> fan_Active (fan_run no_numeric_strings ble_config fan_at_rest
         [ActiveSet ACTIVE, DebounceElapsed Connected Throws]) = ACTIVE
   \<and> fan_Active (Fan_BLEsettled ble_config True Throws
        (fan_run no_numeric_strings ble_config fan_at_rest
           [ActiveSet ACTIVE, DebounceElapsed Connected Throws])) = JBool False
   \<and> fan_trace (Fan_BLEsettled ble_config True Throws
        (fan_run no_numeric_strings ble_config fan_at_rest
           [ActiveSet ACTIVE, DebounceElapsed Connected Throws])) = [BLEDiscover, BLECommand ''turnOn'']"
  using C10_ble_success_clears_active [of "fan_run no_numeric_strings ble_config fan_at_rest
         [ActiveSet ACTIVE, DebounceElapsed Connected Throws]" ble_config Throws]
  by (simp add: js_defs fan_defs example_defs hap_defs Let_def)

end
